theory Spec2Isabelle
  imports Main "HOL-Library.AList" "HOL-Library.Sublist"
begin

section \<open>Values shared by the whole program\<close>

text \<open>
  Text is a \<^typ>\<open>string\<close>: the bytes of the UTF-8 encoding that \<^verbatim>\<open>str.encode()\<close>
  produces. The exceptions the program can meet are values of \<open>exn\<close>; an exception raised
  inside a library call carries the library's message (\<open>LibraryError\<close>) unless the
  program tells it apart. A file that does not exist is \<open>None\<close> in the files below, and
  the \<^verbatim>\<open>FileNotFoundError\<close> the source catches is the \<open>None\<close> case of the function that
  reads it.
\<close>

datatype exn =
    TypeError
  | AttributeError
  | KeyError string
  | IndexError
  | JSONDecodeError
  | UnicodeDecodeError
  | RecursionError
  | LibraryError string

text \<open>
  The texts the program shows through \<^verbatim>\<open>st.error\<close> and \<^verbatim>\<open>st.success\<close>, one
  constructor for each literal of the source (the source's literals are Russian sentences):
  \<^item> \<open>Dataset_not_found\<close>: the dataset file was not found (\<^verbatim>\<open>train_ml_model\<close>);
  \<^item> \<open>Only_one_class\<close>: the dataset holds only one class (\<^verbatim>\<open>train_ml_model\<close>);
  \<^item> \<open>Model_trained\<close>: the model was trained and saved (\<^verbatim>\<open>train_ml_model\<close>);
  \<^item> \<open>Model_not_found\<close>: no trained model was found (\<^verbatim>\<open>load_ml_model\<close>);
  \<^item> \<open>Fstec_bad_json\<close>: the signature file is not JSON (\<^verbatim>\<open>load_fstec_db\<close>);
  \<^item> \<open>Fstec_updated\<close>: the signature base was updated (\<^verbatim>\<open>update_fstec_db\<close>);
  \<^item> \<open>Expected_list\<close>: a JSON list of vulnerabilities was expected (\<^verbatim>\<open>update_fstec_db\<close>);
  \<^item> \<open>Server_code c\<close>: the server answered with status \<open>c\<close> (\<^verbatim>\<open>update_fstec_db\<close>);
  \<^item> \<open>Caught e\<close>: the text of a caught exception \<open>e\<close> (\<^verbatim>\<open>update_fstec_db\<close>).
\<close>

datatype msg =
    Dataset_not_found
  | Only_one_class
  | Model_trained
  | Model_not_found
  | Fstec_bad_json
  | Fstec_updated
  | Expected_list
  | Server_code int
  | Caught exn

section \<open>The syntax-tree analysis\<close>

text \<open>
  A node of Python's \<^verbatim>\<open>ast\<close> module, as far as \<^verbatim>\<open>analyze_code_with_ast\<close> tells
  nodes apart: \<open>Name i\<close> is \<^verbatim>\<open>ast.Name\<close> with \<^verbatim>\<open>id = i\<close>, the only node class with an
  \<^verbatim>\<open>id\<close> attribute; \<open>Call f xs\<close> is \<^verbatim>\<open>ast.Call\<close> with callee \<open>f\<close> and the argument
  and keyword nodes \<open>xs\<close>; \<open>Other xs\<close> is a node of any other class with child nodes
  \<open>xs\<close>.
\<close>

datatype node =
    Name string
  | Call node "node list"
  | Other "node list"

fun iter_child_nodes :: "node \<Rightarrow> node list" where
  "iter_child_nodes (Name i) = []"
| "iter_child_nodes (Call f xs) = f # xs"
| "iter_child_nodes (Other xs) = xs"

lemma size_list_sum: "size_list size xs = sum_list (map size xs) + length xs"
  by (induction xs) auto

lemma children_smaller:
  "sum_list (map size (iter_child_nodes n)) + length (iter_child_nodes n) \<le> size n"
  by (cases n) (simp_all add: size_list_sum)

text \<open>
  \<^verbatim>\<open>ast.walk\<close>: a queue that starts with the root; the first node is taken off, its
  children are put at the end, the node is yielded.
\<close>

function walk_queue :: "node list \<Rightarrow> node list" where
  "walk_queue [] = []"
| "walk_queue (n # todo) = n # walk_queue (todo @ iter_child_nodes n)"
  by pat_completeness auto
termination
proof (relation "measure (\<lambda>todo. sum_list (map size todo) + length todo)")
  show "wf (measure (\<lambda>todo. sum_list (map size todo) + length todo))"
    by simp
next
  fix n :: node and todo :: "node list"
  show "(todo @ iter_child_nodes n, n # todo)
          \<in> measure (\<lambda>todo. sum_list (map size todo) + length todo)"
    using children_smaller [of n] by simp
qed

definition walk :: "node \<Rightarrow> node list" where
  "walk tree = walk_queue [tree]"

text \<open>
  The three results of \<^verbatim>\<open>analyze_code_with_ast\<close>, one for each string it returns:
  \<open>Eval_found\<close> (a use of eval was found), \<open>Ast_error e\<close> (the text of the caught
  exception \<open>e\<close>) and \<open>No_danger\<close> (no dangerous construct was found).
\<close>

datatype ast_verdict = Eval_found | Ast_error exn | No_danger

text \<open>
  The test of the loop body:
  \<^verbatim>\<open>isinstance(node, ast.Call) and hasattr(node.func, "id")\<close> and then
  \<^verbatim>\<open>node.func.id == "eval"\<close>.
\<close>

fun is_eval_call :: "node \<Rightarrow> bool" where
  "is_eval_call (Call (Name i) xs) = (i = ''eval'')"
| "is_eval_call n = False"

text \<open>The \<^verbatim>\<open>for\<close> loop over the walk, which returns at the first hit.\<close>

fun scan_nodes :: "node list \<Rightarrow> ast_verdict" where
  "scan_nodes [] = No_danger"
| "scan_nodes (n # ns) = (if is_eval_call n then Eval_found else scan_nodes ns)"

text \<open>
  \<^verbatim>\<open>ast.parse\<close> is the parser of the host language, a parameter here: it gives the
  tree, or the exception it raises (\<^verbatim>\<open>SyntaxError\<close> and the like, all of them caught by
  \<^verbatim>\<open>except Exception\<close>).
\<close>

definition analyze_code_with_ast :: "(string \<Rightarrow> exn + node) \<Rightarrow> string \<Rightarrow> ast_verdict" where
  "analyze_code_with_ast parse code_snippet =
     (case parse code_snippet of
        Inl e \<Rightarrow> Ast_error e
      | Inr tree \<Rightarrow> scan_nodes (walk tree))"

text \<open>
  The nodes of a tree, defined by the structure of the tree and not by the queue: the
  tree itself and the nodes of its children.
\<close>

fun nodes_of :: "node \<Rightarrow> node set" where
  "nodes_of (Name i) = {Name i}"
| "nodes_of (Call f xs) = insert (Call f xs) (nodes_of f \<union> (\<Union>x \<in> set xs. nodes_of x))"
| "nodes_of (Other xs) = insert (Other xs) (\<Union>x \<in> set xs. nodes_of x)"

section \<open>JSON values and the files of the program\<close>

text \<open>
  What \<^verbatim>\<open>json.load\<close> and \<^verbatim>\<open>response.json()\<close> return. \<open>JObj\<close> holds the items of
  a Python \<^verbatim>\<open>dict\<close> in insertion order: \<open>map_of\<close> reads a key and \<open>AList.update\<close>
  assigns one (in place when the key is there, at the end otherwise).
\<close>

datatype json =
    JNull
  | JBool bool
  | JNum int
  | JStr string
  | JArr "json list"
  | JObj "(string \<times> json) list"

text \<open>
  What \<^verbatim>\<open>json.load\<close> does on a file that exists: it decodes it to a value, or it
  raises. It raises \<^verbatim>\<open>JSONDecodeError\<close> on text that is not JSON,
  \<^verbatim>\<open>UnicodeDecodeError\<close> on bytes that are not UTF-8 text, \<^verbatim>\<open>RecursionError\<close> on
  text nested deeper than the interpreter allows.
\<close>

datatype json_file = Json json | Load_raises exn

text \<open>
  What \<^verbatim>\<open>joblib.load\<close> does on a file that exists: it gives back the object that was
  dumped, or it raises on a file that is not a readable pickle.
\<close>

datatype 'a pickle = Pickled 'a | Unreadable exn

text \<open>
  A cell of a pandas table: a missing value, a number or a text. \<^verbatim>\<open>pd.read_csv\<close>
  reads an empty field and the words it takes for missing values as \<open>NaN\<close>, and a
  column of number literals as numbers (integers stand for all numbers here). A table of
  the dataset has the two columns \<^verbatim>\<open>code\<close> and \<^verbatim>\<open>label\<close>; a row is the pair of its
  two cells.
\<close>

datatype cell = NaN | Num int | Str string

type_synonym frame = "(cell \<times> cell) list"

text \<open>
  The two calls into pandas that touch the dataset file, taken as parameters:
  \<^verbatim>\<open>pd.read_csv\<close> on the text of a file that exists gives a table or raises
  (an empty file, a file it cannot parse), and \<^verbatim>\<open>to_csv(index=False)\<close> gives the text
  of a table.
\<close>

record pandas =
  read_csv :: "string \<Rightarrow> exn + frame"
  to_csv :: "frame \<Rightarrow> string"

text \<open>
  The files the detection and training code reads and writes; \<open>None\<close> is a file that
  does not exist. The dataset file holds its text. The classifier \<open>'clf\<close>, the
  vectorizer \<open>'vz\<close> and the scores \<open>'r\<close> are the library's own values. Writing a file
  is taken to succeed.
\<close>

record 'r metrics =
  precision :: 'r
  recall :: 'r
  f1_score :: 'r

record ('clf, 'vz, 'r) files =
  DATASET_FILE :: "string option"
  ML_MODEL_FILE :: "'clf pickle option"
  VECTOR_FILE :: "'vz pickle option"
  METRICS_FILE :: "'r metrics option"
  FSTEC_DB_FILE :: "json_file option"

text \<open>
  A function that writes files returns its writes in the order the source performs
  them; \<open>apply_writes\<close> gives the files after them, and \<open>states_during\<close> the files
  after each write in turn, the state before the first write included.
\<close>

datatype ('clf, 'vz, 'r) file_write =
    Write_dataset string
  | Write_model 'clf
  | Write_vectorizer 'vz
  | Write_metrics "'r metrics"
  | Write_fstec json

fun apply_write :: "('clf, 'vz, 'r) file_write \<Rightarrow> ('clf, 'vz, 'r) files \<Rightarrow> ('clf, 'vz, 'r) files" where
  "apply_write (Write_dataset d) fs = fs\<lparr>DATASET_FILE := Some d\<rparr>"
| "apply_write (Write_model m) fs = fs\<lparr>ML_MODEL_FILE := Some (Pickled m)\<rparr>"
| "apply_write (Write_vectorizer v) fs = fs\<lparr>VECTOR_FILE := Some (Pickled v)\<rparr>"
| "apply_write (Write_metrics ms) fs = fs\<lparr>METRICS_FILE := Some ms\<rparr>"
| "apply_write (Write_fstec j) fs = fs\<lparr>FSTEC_DB_FILE := Some (Json j)\<rparr>"

fun apply_writes :: "('clf, 'vz, 'r) file_write list \<Rightarrow> ('clf, 'vz, 'r) files \<Rightarrow> ('clf, 'vz, 'r) files" where
  "apply_writes [] fs = fs"
| "apply_writes (w # ws) fs = apply_writes ws (apply_write w fs)"

fun states_during :: "('clf, 'vz, 'r) file_write list \<Rightarrow> ('clf, 'vz, 'r) files \<Rightarrow> ('clf, 'vz, 'r) files list" where
  "states_during [] fs = [fs]"
| "states_during (w # ws) fs = fs # states_during ws (apply_write w fs)"

text \<open>
  The results of \<^verbatim>\<open>analyze_code_with_ml\<close>, one for each string it returns (the model
  could not be loaded, a vulnerability with the predicted label, the code is safe), and
  of \<^verbatim>\<open>compare_with_fstec\<close> (a match with the description, the CVE and the severity of
  the record, or no match).
\<close>

datatype ml_verdict = Model_load_error | Vulnerability_found cell | Code_safe

datatype fstec_verdict = Match json json json | No_match

text \<open>
  What the page shows: an error, a success message, or a line written by
  \<^verbatim>\<open>st.write\<close> with the result of one analysis.
\<close>

datatype report_line =
    Ml_line ml_verdict
  | Ast_line ast_verdict
  | Fstec_line fstec_verdict

datatype ui = St_error msg | St_success msg | St_write report_line

text \<open>
  What a function does besides returning: the messages it shows, the files it writes,
  and the exception it lets escape (\<open>None\<close> when it returns normally). \<open>escaped ws e\<close>
  is a call that the exception \<open>e\<close> leaves after the writes \<open>ws\<close>, with nothing shown.
\<close>

record ('clf, 'vz, 'r) effects =
  shown :: "ui list"
  writes :: "('clf, 'vz, 'r) file_write list"
  raised :: "exn option"

definition escaped :: "('clf, 'vz, 'r) file_write list \<Rightarrow> exn \<Rightarrow> ('clf, 'vz, 'r) effects" where
  "escaped ws e = \<lparr>shown = [], writes = ws, raised = Some e\<rparr>"

section \<open>The training pipeline\<close>

text \<open>
  The calls into scikit-learn, taken as parameters; each of them gives its result or the
  exception it raises on the data it is given. \<^verbatim>\<open>train_test_split\<close> stands for the call
  of the source, with its fixed \<^verbatim>\<open>test_size\<close>, \<^verbatim>\<open>random_state\<close> and stratification;
  \<open>fit_transform\<close> is \<^verbatim>\<open>fit_transform\<close> of a fresh \<^verbatim>\<open>TfidfVectorizer\<close>, which gives the
  fitted vectorizer and the vectors of the texts, \<open>transform\<close> is \<^verbatim>\<open>transform\<close> of a
  fitted one; \<open>forest_fit\<close> and \<open>forest_predict\<close> are \<^verbatim>\<open>fit\<close> of a fresh
  \<^verbatim>\<open>RandomForestClassifier\<close> and \<^verbatim>\<open>predict\<close> of a fitted one; the three scores are
  called with the weighted average.
\<close>

record ('clf, 'vz, 'vec, 'r) sklearn =
  train_test_split :: "frame \<Rightarrow> exn + (frame \<times> frame)"
  fit_transform :: "cell list \<Rightarrow> exn + ('vz \<times> 'vec list)"
  transform :: "'vz \<Rightarrow> cell list \<Rightarrow> exn + 'vec list"
  forest_fit :: "'vec list \<Rightarrow> cell list \<Rightarrow> exn + 'clf"
  forest_predict :: "'clf \<Rightarrow> 'vec list \<Rightarrow> exn + cell list"
  precision_score :: "cell list \<Rightarrow> cell list \<Rightarrow> exn + 'r"
  recall_score :: "cell list \<Rightarrow> cell list \<Rightarrow> exn + 'r"
  f1_score_sk :: "cell list \<Rightarrow> cell list \<Rightarrow> exn + 'r"

text \<open>
  \<^verbatim>\<open>data["label"].value_counts()\<close>: each label that is not missing, with the number of
  its rows (pandas sorts the result by count; the order plays no part in what follows).
\<close>

definition value_counts :: "cell list \<Rightarrow> (cell \<times> nat) list" where
  "value_counts labels =
     map (\<lambda>l. (l, count_list labels l)) (remdups (filter (\<lambda>l. l \<noteq> NaN) labels))"

text \<open>
  \<^verbatim>\<open>data[data["label"].isin(class_counts[class_counts >= 2].index)]\<close>: a missing label
  is not in the index, so its row goes.
\<close>

definition min_support_filter :: "frame \<Rightarrow> frame" where
  "min_support_filter data =
     (let class_counts = value_counts (map snd data);
          index = map fst (filter (\<lambda>(l, c). c \<ge> 2) class_counts)
      in filter (\<lambda>row. snd row \<in> set index) data)"

text \<open>\<^verbatim>\<open>nunique()\<close> counts the distinct values that are not missing.\<close>

definition nunique :: "cell list \<Rightarrow> nat" where
  "nunique labels = length (remdups (filter (\<lambda>l. l \<noteq> NaN) labels))"

text \<open>
  The second half of \<^verbatim>\<open>train_ml_model\<close>, from the split on: an exception of a library
  call is not caught and escapes. The classifier and the vectorizer are written once the
  classifier is fitted, the classifier first; the scores are written after the
  prediction on the test rows and the three scores have returned.
\<close>

definition fit_and_save ::
  "('clf, 'vz, 'vec, 'r) sklearn \<Rightarrow> frame \<Rightarrow> ('clf, 'vz, 'r) effects" where
  "fit_and_save sk data =
     (case train_test_split sk data of
        Inl e \<Rightarrow> escaped [] e
      | Inr (train, test) \<Rightarrow>
          (case fit_transform sk (map fst train) of
             Inl e \<Rightarrow> escaped [] e
           | Inr (vectorizer, X_train_tfidf) \<Rightarrow>
               (case transform sk vectorizer (map fst test) of
                  Inl e \<Rightarrow> escaped [] e
                | Inr X_test_tfidf \<Rightarrow>
                    (case forest_fit sk X_train_tfidf (map snd train) of
                       Inl e \<Rightarrow> escaped [] e
                     | Inr model \<Rightarrow>
                         (case forest_predict sk model X_test_tfidf of
                            Inl e \<Rightarrow> escaped [Write_model model, Write_vectorizer vectorizer] e
                          | Inr y_pred \<Rightarrow>
                              (case precision_score sk (map snd test) y_pred of
                                 Inl e \<Rightarrow>
                                   escaped [Write_model model, Write_vectorizer vectorizer] e
                               | Inr p \<Rightarrow>
                                   (case recall_score sk (map snd test) y_pred of
                                      Inl e \<Rightarrow>
                                        escaped [Write_model model, Write_vectorizer vectorizer] e
                                    | Inr r \<Rightarrow>
                                        (case f1_score_sk sk (map snd test) y_pred of
                                           Inl e \<Rightarrow>
                                             escaped
                                               [Write_model model, Write_vectorizer vectorizer] e
                                         | Inr f1 \<Rightarrow>
                                             \<lparr>shown = [St_success Model_trained],
                                              writes =
                                                [Write_model model, Write_vectorizer vectorizer,
                                                 Write_metrics
                                                   \<lparr>precision = p, recall = r, f1_score = f1\<rparr>],
                                              raised = None\<rparr>))))))))"

text \<open>
  \<^verbatim>\<open>train_ml_model\<close>. A missing dataset file and a dataset with fewer than two classes
  after the filter end the call with an error on the page; an exception of
  \<^verbatim>\<open>pd.read_csv\<close> on a file that exists escapes. The header the function prints first
  is left out.
\<close>

definition train_ml_model ::
  "pandas \<Rightarrow> ('clf, 'vz, 'vec, 'r) sklearn \<Rightarrow> ('clf, 'vz, 'r) files \<Rightarrow> ('clf, 'vz, 'r) effects" where
  "train_ml_model pd sk fs =
     (case DATASET_FILE fs of
        None \<Rightarrow> \<lparr>shown = [St_error Dataset_not_found], writes = [], raised = None\<rparr>
      | Some text \<Rightarrow>
          (case read_csv pd text of
             Inl e \<Rightarrow> escaped [] e
           | Inr data0 \<Rightarrow>
               let data = min_support_filter data0 in
               if nunique (map snd data) < 2
               then \<lparr>shown = [St_error Only_one_class], writes = [], raised = None\<rparr>
               else fit_and_save sk data))"

text \<open>
  The table \<^verbatim>\<open>auto_retrain_model\<close> starts from: an empty one when the dataset file is
  missing, what \<^verbatim>\<open>pd.read_csv\<close> gives or raises otherwise.
\<close>

definition frame_before :: "pandas \<Rightarrow> ('clf, 'vz, 'r) files \<Rightarrow> exn + frame" where
  "frame_before pd fs = (case DATASET_FILE fs of None \<Rightarrow> Inr [] | Some text \<Rightarrow> read_csv pd text)"

text \<open>
  \<^verbatim>\<open>auto_retrain_model\<close>: the new row is appended to the table and the table written
  with \<^verbatim>\<open>to_csv\<close> before the vectorizer and the classifier are fitted on all of it. No
  exception but the missing file is caught.
\<close>

definition auto_retrain_model ::
  "pandas \<Rightarrow> ('clf, 'vz, 'vec, 'r) sklearn \<Rightarrow> string \<Rightarrow> string \<Rightarrow> ('clf, 'vz, 'r) files
     \<Rightarrow> ('clf, 'vz, 'r) effects" where
  "auto_retrain_model pd sk new_code label fs =
     (case frame_before pd fs of
        Inl e \<Rightarrow> escaped [] e
      | Inr df0 \<Rightarrow>
          let df = df0 @ [(Str new_code, Str label)]
          in
            (case fit_transform sk (map fst df) of
               Inl e \<Rightarrow> escaped [Write_dataset (to_csv pd df)] e
             | Inr (vectorizer, X) \<Rightarrow>
                 (case forest_fit sk X (map snd df) of
                    Inl e \<Rightarrow> escaped [Write_dataset (to_csv pd df)] e
                  | Inr model \<Rightarrow>
                      \<lparr>shown = [],
                       writes = [Write_dataset (to_csv pd df), Write_model model,
                                 Write_vectorizer vectorizer],
                       raised = None\<rparr>)))"

section \<open>The classifier at detection time\<close>

text \<open>
  \<^verbatim>\<open>load_ml_model\<close> loads the classifier, then the vectorizer; a missing file of
  either makes it show an error and return no model, and any other exception of
  \<^verbatim>\<open>joblib.load\<close> escapes.
\<close>

definition load_ml_model ::
  "('clf, 'vz, 'r) files \<Rightarrow> ui list \<times> (exn + ('clf \<times> 'vz) option)" where
  "load_ml_model fs =
     (case ML_MODEL_FILE fs of
        None \<Rightarrow> ([St_error Model_not_found], Inr None)
      | Some (Unreadable e) \<Rightarrow> ([], Inl e)
      | Some (Pickled model) \<Rightarrow>
          (case VECTOR_FILE fs of
             None \<Rightarrow> ([St_error Model_not_found], Inr None)
           | Some (Unreadable e) \<Rightarrow> ([], Inl e)
           | Some (Pickled vectorizer) \<Rightarrow> ([], Inr (Some (model, vectorizer)))))"

text \<open>
  \<^verbatim>\<open>analyze_code_with_ml\<close>: the snippet is transformed as a list of one text and the
  first prediction is read; an exception of the loading, of \<^verbatim>\<open>transform\<close> or of
  \<^verbatim>\<open>predict\<close> escapes.
\<close>

definition analyze_code_with_ml ::
  "('clf, 'vz, 'vec, 'r) sklearn \<Rightarrow> ('clf, 'vz, 'r) files \<Rightarrow> string
     \<Rightarrow> ui list \<times> (exn + ml_verdict)" where
  "analyze_code_with_ml sk fs code_snippet =
     (case load_ml_model fs of
        (out, Inl e) \<Rightarrow> (out, Inl e)
      | (out, Inr None) \<Rightarrow> (out, Inr Model_load_error)
      | (out, Inr (Some (model, vectorizer))) \<Rightarrow>
          (case transform sk vectorizer [Str code_snippet] of
             Inl e \<Rightarrow> (out, Inl e)
           | Inr vectorized_code \<Rightarrow>
               (case forest_predict sk model vectorized_code of
                  Inl e \<Rightarrow> (out, Inl e)
                | Inr [] \<Rightarrow> (out, Inl IndexError)
                | Inr (prediction # rest) \<Rightarrow>
                    (out, Inr (if prediction \<noteq> Str ''safe''
                               then Vulnerability_found prediction else Code_safe)))))"

section \<open>The signature store\<close>

text \<open>
  \<^verbatim>\<open>load_fstec_db\<close>: no file is an empty list; a file on which \<^verbatim>\<open>json.load\<close> raises
  \<^verbatim>\<open>JSONDecodeError\<close> is reported and read as an empty list; any other exception of
  the loading escapes.
\<close>

definition load_fstec_db :: "('clf, 'vz, 'r) files \<Rightarrow> ui list \<times> (exn + json)" where
  "load_fstec_db fs =
     (case FSTEC_DB_FILE fs of
        None \<Rightarrow> ([], Inr (JArr []))
      | Some (Json db) \<Rightarrow> ([], Inr db)
      | Some (Load_raises e) \<Rightarrow>
          if e = JSONDecodeError then ([St_error Fstec_bad_json], Inr (JArr []))
          else ([], Inl e))"

text \<open>
  \<^verbatim>\<open>for vuln in fstec_db\<close>: a list gives its elements, a dict its keys, a string its
  characters; the other values are not iterable.
\<close>

fun py_iter :: "json \<Rightarrow> exn + json list" where
  "py_iter (JArr xs) = Inr xs"
| "py_iter (JObj kvs) = Inr (map (\<lambda>kv. JStr (fst kv)) kvs)"
| "py_iter (JStr s) = Inr (map (\<lambda>c. JStr [c]) s)"
| "py_iter v = Inl TypeError"

text \<open>\<^verbatim>\<open>vuln[key]\<close> on a dict.\<close>

definition dict_item :: "(string \<times> json) list \<Rightarrow> string \<Rightarrow> exn + json" where
  "dict_item kvs k = (case map_of kvs k of None \<Rightarrow> Inl (KeyError k) | Some v \<Rightarrow> Inr v)"

text \<open>
  The loop of \<^verbatim>\<open>compare_with_fstec\<close>. Only a dict has \<^verbatim>\<open>get\<close>; the first record
  whose \<^verbatim>\<open>hash\<close> is the string \<open>code_hash\<close> is formatted, reading its
  \<^verbatim>\<open>description\<close>, \<^verbatim>\<open>CVE\<close> and \<^verbatim>\<open>severity\<close> in this order.
\<close>

fun find_vuln :: "string \<Rightarrow> json list \<Rightarrow> exn + fstec_verdict" where
  "find_vuln code_hash [] = Inr No_match"
| "find_vuln code_hash (JObj kvs # rest) =
     (if map_of kvs ''hash'' = Some (JStr code_hash)
      then
        (case dict_item kvs ''description'' of
           Inl e \<Rightarrow> Inl e
         | Inr d \<Rightarrow>
             (case dict_item kvs ''CVE'' of
                Inl e \<Rightarrow> Inl e
              | Inr c \<Rightarrow>
                  (case dict_item kvs ''severity'' of
                     Inl e \<Rightarrow> Inl e
                   | Inr s \<Rightarrow> Inr (Match d c s))))
      else find_vuln code_hash rest)"
| "find_vuln code_hash (v # rest) = Inl AttributeError"

text \<open>
  \<open>sha256\<close> stands for \<^verbatim>\<open>hashlib.sha256(text.encode()).hexdigest()\<close>, a parameter of
  the functions that hash.
\<close>

definition compare_with_fstec ::
  "(string \<Rightarrow> string) \<Rightarrow> ('clf, 'vz, 'r) files \<Rightarrow> string \<Rightarrow> ui list \<times> (exn + fstec_verdict)" where
  "compare_with_fstec sha256 fs code_snippet =
     (case load_fstec_db fs of
        (out, Inl e) \<Rightarrow> (out, Inl e)
      | (out, Inr fstec_db) \<Rightarrow>
          let code_hash = sha256 code_snippet
          in (out, case py_iter fstec_db of
                     Inl e \<Rightarrow> Inl e
                   | Inr vulns \<Rightarrow> find_vuln code_hash vulns))"

text \<open>
  The body of the loop of \<^verbatim>\<open>update_fstec_db\<close> on one element:
  \<^verbatim>\<open>"pattern" in vuln\<close> is a key test on a dict, a membership test on a list, a
  substring test on a string and a \<^verbatim>\<open>TypeError\<close> on the other values; \<^verbatim>\<open>vuln["pattern"]\<close>
  then needs a dict, and \<^verbatim>\<open>encode\<close> a string.
\<close>

fun add_hash :: "(string \<Rightarrow> string) \<Rightarrow> json \<Rightarrow> exn + json" where
  "add_hash sha256 (JObj kvs) =
     (case map_of kvs ''pattern'' of
        None \<Rightarrow> Inr (JObj kvs)
      | Some (JStr p) \<Rightarrow> Inr (JObj (AList.update ''hash'' (JStr (sha256 p)) kvs))
      | Some v \<Rightarrow> Inl AttributeError)"
| "add_hash sha256 (JArr xs) = (if JStr ''pattern'' \<in> set xs then Inl TypeError else Inr (JArr xs))"
| "add_hash sha256 (JStr s) = (if sublist ''pattern'' s then Inl TypeError else Inr (JStr s))"
| "add_hash sha256 v = Inl TypeError"

fun add_hashes :: "(string \<Rightarrow> string) \<Rightarrow> json list \<Rightarrow> exn + json list" where
  "add_hashes sha256 [] = Inr []"
| "add_hashes sha256 (vuln # rest) =
     (case add_hash sha256 vuln of
        Inl e \<Rightarrow> Inl e
      | Inr vuln' \<Rightarrow>
          (case add_hashes sha256 rest of
             Inl e \<Rightarrow> Inl e
           | Inr rest' \<Rightarrow> Inr (vuln' # rest')))"

text \<open>
  The answer of \<^verbatim>\<open>requests.get\<close>: its status code and what \<^verbatim>\<open>response.json()\<close>
  gives, a value or the exception of a body that is not JSON.
\<close>

datatype response = Response (status_code: int) (json_body: "exn + json")

text \<open>
  \<^verbatim>\<open>update_fstec_db\<close>, given whether the button is pressed and what
  \<^verbatim>\<open>requests.get(api_url)\<close> does (it raises or answers). Every exception is caught and
  shown; the file is written after the loop over the elements has ended. The header and
  the input field of the page are left out.
\<close>

definition update_fstec_db ::
  "(string \<Rightarrow> string) \<Rightarrow> bool \<Rightarrow> exn + response \<Rightarrow> ('clf, 'vz, 'r) effects" where
  "update_fstec_db sha256 button got =
     (if \<not> button then \<lparr>shown = [], writes = [], raised = None\<rparr>
      else
        (case got of
           Inl e \<Rightarrow> \<lparr>shown = [St_error (Caught e)], writes = [], raised = None\<rparr>
         | Inr response \<Rightarrow>
             if status_code response = 200
             then
               (case json_body response of
                  Inl e \<Rightarrow> \<lparr>shown = [St_error (Caught e)], writes = [], raised = None\<rparr>
                | Inr (JArr new_db) \<Rightarrow>
                    (case add_hashes sha256 new_db of
                       Inl e \<Rightarrow> \<lparr>shown = [St_error (Caught e)], writes = [], raised = None\<rparr>
                     | Inr new_db' \<Rightarrow>
                         \<lparr>shown = [St_success Fstec_updated],
                          writes = [Write_fstec (JArr new_db')],
                          raised = None\<rparr>)
                | Inr v \<Rightarrow> \<lparr>shown = [St_error Expected_list], writes = [], raised = None\<rparr>)
             else \<lparr>shown = [St_error (Server_code (status_code response))], writes = [],
                   raised = None\<rparr>))"

section \<open>Detection\<close>

text \<open>
  The code-analysis branch of \<^verbatim>\<open>main\<close> once its button is pressed: three
  \<^verbatim>\<open>st.write\<close> calls in a row, each on the result of one analysis. An exception of the
  first analysis leaves the branch before anything is written; an exception of the third
  leaves the first two lines written.
\<close>

definition detect ::
  "('clf, 'vz, 'vec, 'r) sklearn \<Rightarrow> (string \<Rightarrow> string) \<Rightarrow> (string \<Rightarrow> exn + node)
     \<Rightarrow> ('clf, 'vz, 'r) files \<Rightarrow> string \<Rightarrow> ('clf, 'vz, 'r) effects" where
  "detect sk sha256 parse fs code_input =
     (case analyze_code_with_ml sk fs code_input of
        (out_ml, Inl e) \<Rightarrow> \<lparr>shown = out_ml, writes = [], raised = Some e\<rparr>
      | (out_ml, Inr ml) \<Rightarrow>
          let line1 = out_ml @ [St_write (Ml_line ml)];
              line2 = line1 @ [St_write (Ast_line (analyze_code_with_ast parse code_input))]
          in
            (case compare_with_fstec sha256 fs code_input of
               (out_db, Inl e) \<Rightarrow> \<lparr>shown = line2 @ out_db, writes = [], raised = Some e\<rparr>
             | (out_db, Inr v) \<Rightarrow>
                 \<lparr>shown = line2 @ out_db @ [St_write (Fstec_line v)], writes = [],
                  raised = None\<rparr>))"

section \<open>Notions the properties are stated with\<close>

fun is_dataset_write :: "('clf, 'vz, 'r) file_write \<Rightarrow> bool" where
  "is_dataset_write (Write_dataset d) = True"
| "is_dataset_write w = False"

text \<open>The lines \<^verbatim>\<open>st.write\<close> has put on the page, in order.\<close>

fun report_lines :: "ui list \<Rightarrow> report_line list" where
  "report_lines [] = []"
| "report_lines (St_write l # out) = l # report_lines out"
| "report_lines (u # out) = report_lines out"

text \<open>
  The two halves of the model artifact as they are on disk, and the atomic replacement
  the specification asks for: in every state a call passes through, the pair on disk is
  the pair from before the call or the pair from after it.
\<close>

definition artifact :: "('clf, 'vz, 'r) files \<Rightarrow> 'clf pickle option \<times> 'vz pickle option" where
  "artifact fs = (ML_MODEL_FILE fs, VECTOR_FILE fs)"

definition artifact_atomic ::
  "('clf, 'vz, 'r) file_write list \<Rightarrow> ('clf, 'vz, 'r) files \<Rightarrow> bool" where
  "artifact_atomic ws fs =
     list_all (\<lambda>s. artifact s = artifact fs \<or> artifact s = artifact (apply_writes ws fs))
       (states_during ws fs)"


fun has_hash :: "string \<Rightarrow> json \<Rightarrow> bool" where
  "has_hash h (JObj kvs) = (map_of kvs ''hash'' = Some (JStr h))"
| "has_hash h v = False"

fun has_pattern :: "string \<Rightarrow> json \<Rightarrow> bool" where
  "has_pattern p (JObj kvs) = (map_of kvs ''pattern'' = Some (JStr p))"
| "has_pattern p v = False"







text \<open>
  \<open>hashed digest r r'\<close>: the object \<open>r'\<close> is the object \<open>r\<close> with its \<^verbatim>\<open>hash\<close> field set
  to the digest of its \<^verbatim>\<open>pattern\<close>, every other field as it was.
\<close>

fun hashed :: "(string \<Rightarrow> string) \<Rightarrow> json \<Rightarrow> json \<Rightarrow> bool" where
  "hashed digest (JObj kvs) (JObj kvs') =
     (\<exists>p. map_of kvs ''pattern'' = Some (JStr p)
          \<and> map_of kvs' = (map_of kvs)(''hash'' \<mapsto> JStr (digest p)))"
| "hashed digest v v' = False"



section \<open>Sample inputs\<close>

text \<open>The text of a file from its lines.\<close>

definition csv_lines :: "string list \<Rightarrow> string" where
  "csv_lines ls = concat (map (\<lambda>l. l @ [CHR 0x0A]) ls)"

text \<open>
  How \<^verbatim>\<open>to_csv\<close> prints a table whose texts hold no comma, quote or line break: the
  header, then a line for each row; a missing value is an empty field.
\<close>

fun digits :: "nat \<Rightarrow> string" where
  "digits n = (if n < 10 then [''0123456789'' ! n]
               else digits (n div 10) @ [''0123456789'' ! (n mod 10)])"

declare digits.simps [simp del]

fun show_cell :: "cell \<Rightarrow> string" where
  "show_cell NaN = []"
| "show_cell (Num i) = (if i < 0 then CHR ''-'' # digits (nat (- i)) else digits (nat i))"
| "show_cell (Str s) = s"

definition example_to_csv :: "frame \<Rightarrow> string" where
  "example_to_csv df =
     csv_lines (''code,label'' # map (\<lambda>(c, l). show_cell c @ '','' @ show_cell l) df)"

text \<open>
  What \<^verbatim>\<open>pd.read_csv\<close> makes of five files: an empty file has no columns to parse; two
  tables of texts; a table with two empty labels, read as missing; a table whose only
  label \<^verbatim>\<open>007\<close> makes the column a column of numbers. Any other text stands for a file
  it cannot parse.
\<close>

definition example_read_csv :: "string \<Rightarrow> exn + frame" where
  "example_read_csv text =
     (if text = [] then Inl (LibraryError ''EmptyDataError'')
      else if text = csv_lines [''code,label'', ''eval(x),unsafe'', ''print(1),safe'']
      then Inr [(Str ''eval(x)'', Str ''unsafe''), (Str ''print(1)'', Str ''safe'')]
      else if text = csv_lines [''code,label'', ''eval(x),unsafe'', ''eval(y),unsafe'',
                                ''print(1),safe'', ''print(2),safe'', ''rm(z),xss'']
      then Inr [(Str ''eval(x)'', Str ''unsafe''), (Str ''eval(y)'', Str ''unsafe''),
                (Str ''print(1)'', Str ''safe''), (Str ''print(2)'', Str ''safe''),
                (Str ''rm(z)'', Str ''xss'')]
      else if text = csv_lines [''code,label'', ''eval(x),unsafe'', ''eval(y),unsafe'',
                                ''print(1),'', ''print(2),'']
      then Inr [(Str ''eval(x)'', Str ''unsafe''), (Str ''eval(y)'', Str ''unsafe''),
                (Str ''print(1)'', NaN), (Str ''print(2)'', NaN)]
      else if text = csv_lines [''code,label'', ''print(1),007'']
      then Inr [(Str ''print(1)'', Num 7)]
      else Inl (LibraryError ''ParserError''))"

definition example_pandas :: pandas where
  "example_pandas = \<lparr>read_csv = example_read_csv, to_csv = example_to_csv\<rparr>"

text \<open>
  A parser that knows three snippets, two calls of eval and a call of print, and takes
  anything else for a syntax error.
\<close>

definition example_parse :: "string \<Rightarrow> exn + node" where
  "example_parse s =
     (if s = ''eval(user_input)''
      then Inr (Other [Other [Call (Name ''eval'') [Name ''user_input'']]])
      else if s = ''eval(x)''
      then Inr (Other [Other [Call (Name ''eval'') [Name ''x'']]])
      else if s = ''print(1)''
      then Inr (Other [Other [Call (Name ''print'') [Other []]]])
      else Inl (LibraryError ''SyntaxError''))"

text \<open>
  A small library. The vectorizer is the list of the texts it was fitted on and wants
  texts, not all of them empty; the vector of a text is the text with the size of the
  vocabulary; the classifier is the table of its training pairs and refuses a vector
  whose size is not the size it was fitted with; it is fitted on labels that are all texts
  or all numbers; every score counts the agreeing predictions.
\<close>

fun cell_text :: "cell \<Rightarrow> string option" where
  "cell_text (Str s) = Some s"
| "cell_text c = None"

definition example_vectors :: "nat \<Rightarrow> cell list \<Rightarrow> exn + (nat \<times> string) list" where
  "example_vectors n cells =
     (if list_all (\<lambda>c. cell_text c \<noteq> None) cells
      then Inr (map (\<lambda>c. (n, the (cell_text c))) cells)
      else Inl (LibraryError ''ValueError''))"

type_synonym example_clf = "((nat \<times> string) \<times> cell) list"

definition example_sklearn :: "(example_clf, string list, nat \<times> string, nat) sklearn" where
  "example_sklearn =
     \<lparr>train_test_split = (\<lambda>d. Inr (butlast d, [last d])),
      fit_transform =
        (\<lambda>corpus. case example_vectors (length corpus) corpus of
                     Inl e \<Rightarrow> Inl e
                   | Inr X \<Rightarrow> if concat (map snd X) = []
                              then Inl (LibraryError ''empty vocabulary'')
                              else Inr (map snd X, X)),
      transform = (\<lambda>vocabulary. example_vectors (length vocabulary)),
      forest_fit =
        (\<lambda>X y. if list_all (\<lambda>l. cell_text l \<noteq> None) y \<or> list_all (\<lambda>l. \<exists>i. l = Num i) y
               then Inr (zip X y)
               else Inl (LibraryError ''ValueError'')),
      forest_predict =
        (\<lambda>model X. if list_all (\<lambda>x. list_all (\<lambda>(v, l). fst v = fst x) model) X
                    then Inr (map (\<lambda>x. case map_of model x of None \<Rightarrow> Str ''safe''
                                                               | Some l \<Rightarrow> l) X)
                    else Inl (LibraryError ''ValueError'')),
      precision_score = (\<lambda>y_true y_pred. Inr (length (filter (\<lambda>(a, b). a = b) (zip y_true y_pred)))),
      recall_score = (\<lambda>y_true y_pred. Inr (length (filter (\<lambda>(a, b). a = b) (zip y_true y_pred)))),
      f1_score_sk = (\<lambda>y_true y_pred. Inr (length (filter (\<lambda>(a, b). a = b) (zip y_true y_pred))))\<rparr>"

text \<open>Files left by an earlier training run on two records, with an empty signature store.\<close>

definition example_files :: "(example_clf, string list, nat) files" where
  "example_files =
     \<lparr>DATASET_FILE = Some (csv_lines [''code,label'', ''eval(x),unsafe'', ''print(1),safe'']),
      ML_MODEL_FILE = Some (Pickled [((2, ''eval(x)''), Str ''unsafe''),
                                     ((2, ''print(1)''), Str ''safe'')]),
      VECTOR_FILE = Some (Pickled [''eval(x)'', ''print(1)'']),
      METRICS_FILE = Some \<lparr>precision = 1, recall = 1, f1_score = 1\<rparr>,
      FSTEC_DB_FILE = Some (Json (JArr []))\<rparr>"

type_synonym example_effects = "(example_clf, string list, nat) effects"

text \<open>A digest that keeps the text it is given, and a store of two records hashed by it.\<close>

definition example_hash :: "string \<Rightarrow> string" where
  "example_hash text = ''digest of '' @ text"


section \<open>The walk visits every node\<close>

lemma nodes_of_unfold: "nodes_of n = insert n (\<Union>x \<in> set (iter_child_nodes n). nodes_of x)"
  by (cases n) auto

lemma set_walk_queue: "set (walk_queue todo) = (\<Union>n \<in> set todo. nodes_of n)"
proof (induction todo rule: walk_queue.induct)
  case 1
  show ?case by simp
next
  case (2 n todo)
  have "set (walk_queue (n # todo)) = insert n (set (walk_queue (todo @ iter_child_nodes n)))"
    by simp
  also have "\<dots> = insert n ((\<Union>m \<in> set todo. nodes_of m)
                        \<union> (\<Union>x \<in> set (iter_child_nodes n). nodes_of x))"
    using "2.IH" by simp
  also have "\<dots> = nodes_of n \<union> (\<Union>m \<in> set todo. nodes_of m)"
    using nodes_of_unfold [of n] by blast
  finally show ?case by simp
qed

lemma set_walk: "set (walk tree) = nodes_of tree"
  using nodes_of_unfold [of tree] by (simp add: walk_def set_walk_queue)

lemma scan_nodes_eq:
  "scan_nodes ns = (if \<exists>n \<in> set ns. is_eval_call n then Eval_found else No_danger)"
  by (induction ns) auto

lemma is_eval_call_iff: "is_eval_call n \<longleftrightarrow> (\<exists>xs. n = Call (Name ''eval'') xs)"
  by (cases n rule: is_eval_call.cases) auto

text \<open>
  C4. For every snippet, \<^verbatim>\<open>analyze_code_with_ast\<close> returns one of its three results
  and raises nothing: when the parser raises, the result carries the parser's exception;
  when the snippet parses and its tree holds a call whose callee is the bare name eval,
  the result is the eval finding; when it parses and holds no such call, the result is
  that nothing dangerous was found.
\<close>

theorem rule_engine_verdicts:
  "analyze_code_with_ast parse code =
     (case parse code of
        Inl e \<Rightarrow> Ast_error e
      | Inr tree \<Rightarrow>
          if (\<exists>xs. Call (Name ''eval'') xs \<in> nodes_of tree) then Eval_found else No_danger)"
proof (cases "parse code")
  case (Inl e)
  then show ?thesis by (simp add: analyze_code_with_ast_def)
next
  case (Inr tree)
  have "(\<exists>n \<in> set (walk tree). is_eval_call n)
          \<longleftrightarrow> (\<exists>xs. Call (Name ''eval'') xs \<in> nodes_of tree)"
    unfolding set_walk is_eval_call_iff by blast
  with Inr show ?thesis
    by (simp add: analyze_code_with_ast_def scan_nodes_eq)
qed

theorem rule_engine_verdicts_witness:
  "analyze_code_with_ast example_parse ''eval(user_input)'' = Eval_found
   \<and> analyze_code_with_ast example_parse ''print(1)'' = No_danger
   \<and> analyze_code_with_ast example_parse ''print('' = Ast_error (LibraryError ''SyntaxError'')"
  using rule_engine_verdicts [of example_parse "''eval(user_input)''"]
    rule_engine_verdicts [of example_parse "''print(1)''"]
    rule_engine_verdicts [of example_parse "''print(''"]
  by (simp add: example_parse_def)

section \<open>The minimum-support filter and the training run\<close>

lemma index_set:
  "set (map fst (filter (\<lambda>(l, c). c \<ge> 2) (value_counts ls)))
     = {l \<in> set ls. l \<noteq> NaN \<and> 2 \<le> count_list ls l}"
  by (force simp: value_counts_def)

lemma min_support_filter_eq:
  "min_support_filter data
     = filter (\<lambda>row. snd row \<noteq> NaN \<and> 2 \<le> count_list (map snd data) (snd row)) data"
proof -
  have "filter (\<lambda>row. snd row \<in> {l \<in> set (map snd data). l \<noteq> NaN
                                      \<and> 2 \<le> count_list (map snd data) l}) data
        = filter (\<lambda>row. snd row \<noteq> NaN \<and> 2 \<le> count_list (map snd data) (snd row)) data"
    by (rule filter_cong) auto
  then show ?thesis
    unfolding min_support_filter_def Let_def index_set by simp
qed

lemma nunique_card: "nunique ls = card (set ls - {NaN})"
proof -
  have "set (filter (\<lambda>l. l \<noteq> NaN) ls) = set ls - {NaN}"
    by auto
  then show ?thesis
    by (simp add: nunique_def length_remdups_card_conv)
qed

lemma nunique_filtered:
  "nunique (map snd (min_support_filter data)) = card (snd ` set (min_support_filter data))"
proof -
  have "NaN \<notin> snd ` set (min_support_filter data)"
    by (auto simp: min_support_filter_eq)
  then show ?thesis
    by (simp add: nunique_card)
qed

lemma filtered_labels_mono:
  "card (snd ` set (min_support_filter data))
     \<le> card (snd ` set (filter (\<lambda>row. 2 \<le> count_list (map snd data) (snd row)) data))"
  by (rule card_mono) (auto simp: min_support_filter_eq)

text \<open>
  C1. For every dataset that \<^verbatim>\<open>pd.read_csv\<close> reads from the file, \<^verbatim>\<open>train_ml_model\<close>
  first drops every record whose label occurs fewer than 2 times (it keeps the records
  whose label is present and occurs at least twice, in their order) and goes on with the
  kept records only. When fewer than two distinct labels are left among the records
  whose label occurs at least twice, it shows the one-class error and does nothing more:
  it writes no file, so the model, the vectorizer and the metrics of an earlier run stay
  as they were.
\<close>

theorem train_needs_two_classes:
  assumes "DATASET_FILE fs = Some csv" and "read_csv pd csv = Inr data"
  shows "min_support_filter data
           = filter (\<lambda>row. snd row \<noteq> NaN \<and> 2 \<le> count_list (map snd data) (snd row)) data
    \<and> train_ml_model pd sk fs
        = (if card (snd ` set (min_support_filter data)) < 2
           then \<lparr>shown = [St_error Only_one_class], writes = [], raised = None\<rparr>
           else fit_and_save sk (min_support_filter data))
    \<and> (card (snd ` set (filter (\<lambda>row. 2 \<le> count_list (map snd data) (snd row)) data)) < 2
         \<longrightarrow> train_ml_model pd sk fs
               = \<lparr>shown = [St_error Only_one_class], writes = [], raised = None\<rparr>
           \<and> apply_writes (writes (train_ml_model pd sk fs)) fs = fs)"
proof -
  have run: "train_ml_model pd sk fs
        = (if card (snd ` set (min_support_filter data)) < 2
           then \<lparr>shown = [St_error Only_one_class], writes = [], raised = None\<rparr>
           else fit_and_save sk (min_support_filter data))"
    using assms by (simp add: train_ml_model_def nunique_filtered Let_def)
  have "train_ml_model pd sk fs
               = \<lparr>shown = [St_error Only_one_class], writes = [], raised = None\<rparr>
           \<and> apply_writes (writes (train_ml_model pd sk fs)) fs = fs"
    if "card (snd ` set (filter (\<lambda>row. 2 \<le> count_list (map snd data) (snd row)) data)) < 2"
  proof -
    from that filtered_labels_mono [of data]
    have "card (snd ` set (min_support_filter data)) < 2"
      by linarith
    then show ?thesis
      by (simp add: run)
  qed
  with run show ?thesis
    by (simp add: min_support_filter_eq)
qed

theorem train_needs_two_classes_witness:
  "train_ml_model example_pandas example_sklearn
     (example_files\<lparr>DATASET_FILE :=
        Some (csv_lines [''code,label'', ''eval(x),unsafe'', ''eval(y),unsafe'',
                         ''print(1),'', ''print(2),''])\<rparr>)
   = \<lparr>shown = [St_error Only_one_class], writes = [], raised = None\<rparr>
   \<and> train_ml_model example_pandas example_sklearn
     (example_files\<lparr>DATASET_FILE :=
        Some (csv_lines [''code,label'', ''eval(x),unsafe'', ''eval(y),unsafe'',
                         ''print(1),safe'', ''print(2),safe'', ''rm(z),xss''])\<rparr>)
   = fit_and_save example_sklearn
       [(Str ''eval(x)'', Str ''unsafe''), (Str ''eval(y)'', Str ''unsafe''),
        (Str ''print(1)'', Str ''safe''), (Str ''print(2)'', Str ''safe'')]"
proof -
  let ?t1 = "csv_lines [''code,label'', ''eval(x),unsafe'', ''eval(y),unsafe'',
                         ''print(1),'', ''print(2),'']"
  let ?t2 = "csv_lines [''code,label'', ''eval(x),unsafe'', ''eval(y),unsafe'',
                         ''print(1),safe'', ''print(2),safe'', ''rm(z),xss'']"
  let ?d1 = "[(Str ''eval(x)'', Str ''unsafe''), (Str ''eval(y)'', Str ''unsafe''),
                (Str ''print(1)'', NaN), (Str ''print(2)'', NaN)]"
  let ?d2 = "[(Str ''eval(x)'', Str ''unsafe''), (Str ''eval(y)'', Str ''unsafe''),
                (Str ''print(1)'', Str ''safe''), (Str ''print(2)'', Str ''safe''),
                (Str ''rm(z)'', Str ''xss'')]"
  have r1: "read_csv example_pandas ?t1 = Inr ?d1"
    by (simp add: example_pandas_def example_read_csv_def csv_lines_def)
  have r2: "read_csv example_pandas ?t2 = Inr ?d2"
    by (simp add: example_pandas_def example_read_csv_def csv_lines_def)
  have f1: "min_support_filter ?d1
              = [(Str ''eval(x)'', Str ''unsafe''), (Str ''eval(y)'', Str ''unsafe'')]"
    by (simp add: min_support_filter_eq)
  have f2: "min_support_filter ?d2
              = [(Str ''eval(x)'', Str ''unsafe''), (Str ''eval(y)'', Str ''unsafe''),
                 (Str ''print(1)'', Str ''safe''), (Str ''print(2)'', Str ''safe'')]"
    by (simp add: min_support_filter_eq)
  show ?thesis
    using train_needs_two_classes [where fs = "example_files\<lparr>DATASET_FILE := Some ?t1\<rparr>"
        and csv = "?t1" and pd = example_pandas and data = "?d1" and sk = example_sklearn, OF _ r1]
      train_needs_two_classes [where fs = "example_files\<lparr>DATASET_FILE := Some ?t2\<rparr>"
        and csv = "?t2" and pd = example_pandas and data = "?d2" and sk = example_sklearn, OF _ r2]
    unfolding f1 f2 by simp
qed

section \<open>Retraining on feedback\<close>

text \<open>The three ways \<^verbatim>\<open>auto_retrain_model\<close> can end.\<close>

lemma auto_retrain_cases:
  fixes sk :: "('clf, 'vz, 'vec, 'r) sklearn" and fs :: "('clf, 'vz, 'r) files"
    and new_code label :: string
  obtains
    (unread) e where "frame_before pd fs = Inl e"
      "auto_retrain_model pd sk new_code label fs = escaped [] e"
  | (failed) df0 e where "frame_before pd fs = Inr df0"
      "auto_retrain_model pd sk new_code label fs
         = escaped [Write_dataset (to_csv pd (df0 @ [(Str new_code, Str label)]))] e"
  | (retrained) df0 model vectorizer X where "frame_before pd fs = Inr df0"
      "fit_transform sk (map fst (df0 @ [(Str new_code, Str label)])) = Inr (vectorizer, X)"
      "forest_fit sk X (map snd (df0 @ [(Str new_code, Str label)])) = Inr model"
      "auto_retrain_model pd sk new_code label fs
         = \<lparr>shown = [],
            writes = [Write_dataset (to_csv pd (df0 @ [(Str new_code, Str label)])),
                      Write_model model, Write_vectorizer vectorizer],
            raised = None\<rparr>"
proof (cases "frame_before pd fs")
  case (Inl e)
  then have "auto_retrain_model pd sk new_code label fs = escaped [] e"
    by (simp add: auto_retrain_model_def)
  with Inl show thesis by (rule unread)
next
  case df0: (Inr df0)
  let ?df = "df0 @ [(Str new_code, Str label)]"
  show thesis
  proof (cases "fit_transform sk (map fst ?df)")
    case (Inl e)
    with df0 have "auto_retrain_model pd sk new_code label fs
               = escaped [Write_dataset (to_csv pd ?df)] e"
      by (simp add: auto_retrain_model_def)
    with df0 show thesis by (rule failed)
  next
    case (Inr fitted)
    obtain vectorizer X where fitted: "fitted = (vectorizer, X)"
      by (cases fitted)
    show thesis
    proof (cases "forest_fit sk X (map snd ?df)")
      case (Inl e)
      with df0 Inr fitted have "auto_retrain_model pd sk new_code label fs
               = escaped [Write_dataset (to_csv pd ?df)] e"
        by (simp add: auto_retrain_model_def)
      with df0 show thesis by (rule failed)
    next
      case model: (Inr model)
      with df0 Inr fitted have "auto_retrain_model pd sk new_code label fs
         = \<lparr>shown = [],
            writes = [Write_dataset (to_csv pd ?df), Write_model model,
                      Write_vectorizer vectorizer],
            raised = None\<rparr>"
        by (simp add: auto_retrain_model_def)
      with df0 Inr fitted model show thesis
        by (intro retrained [of df0 vectorizer X model]) simp_all
    qed
  qed
qed

text \<open>
  C2, as the specification states it, fails at two states of the dataset file. A file
  whose stored record has the label \<^verbatim>\<open>007\<close> is read as a table of numbers and written
  back with the label \<^verbatim>\<open>7\<close>: the text the file held is not the beginning of the text
  it holds after the call, so the stored record has changed. And an empty file makes
  \<^verbatim>\<open>pd.read_csv\<close> raise: the call ends before it writes, and the feedback is lost.
\<close>

theorem feedback_rewrites_or_loses:
  "DATASET_FILE (apply_writes
      (writes (auto_retrain_model example_pandas example_sklearn ''eval(z)'' ''unsafe''
         (example_files\<lparr>DATASET_FILE := Some (csv_lines [''code,label'', ''print(1),007''])\<rparr>)))
      (example_files\<lparr>DATASET_FILE := Some (csv_lines [''code,label'', ''print(1),007''])\<rparr>))
     = Some (csv_lines [''code,label'', ''print(1),7'', ''eval(z),unsafe''])
   \<and> \<not> prefix (csv_lines [''code,label'', ''print(1),007''])
              (csv_lines [''code,label'', ''print(1),7'', ''eval(z),unsafe''])
   \<and> auto_retrain_model example_pandas example_sklearn ''eval(z)'' ''unsafe''
        (example_files\<lparr>DATASET_FILE := Some []\<rparr>)
     = \<lparr>shown = [], writes = [], raised = Some (LibraryError ''EmptyDataError'')\<rparr>"
  by (simp add: auto_retrain_model_def frame_before_def example_pandas_def example_read_csv_def
        example_to_csv_def example_sklearn_def example_vectors_def escaped_def csv_lines_def
        digits.simps [of 7] Let_def)

text \<open>
  C2, amended. Whenever the dataset file is missing or \<^verbatim>\<open>pd.read_csv\<close> reads a table
  from it, the first write of \<^verbatim>\<open>auto_retrain_model\<close> is the dataset file, with the
  text \<^verbatim>\<open>to_csv\<close> gives for the table read (the empty table for a missing file) followed
  by the one row of the code and the label; no later write touches the dataset, so this
  text is in the file after every later step; and when the fitting raises, this write
  has been done and is the only one. The rows stored before are written back as pandas
  read them, not as the file held them. When \<^verbatim>\<open>pd.read_csv\<close> raises, the exception
  escapes and nothing is written.
\<close>

theorem feedback_is_appended_first:
  fixes sk :: "('clf, 'vz, 'vec, 'r) sklearn" and fs :: "('clf, 'vz, 'r) files"
  shows "(\<forall>df0. frame_before pd fs = Inr df0 \<longrightarrow>
            (\<exists>rest. writes (auto_retrain_model pd sk new_code label fs)
                      = Write_dataset (to_csv pd (df0 @ [(Str new_code, Str label)])) # rest
               \<and> list_all (\<lambda>w. \<not> is_dataset_write w) rest
               \<and> list_all (\<lambda>s. DATASET_FILE s
                                   = Some (to_csv pd (df0 @ [(Str new_code, Str label)])))
                    (tl (states_during (writes (auto_retrain_model pd sk new_code label fs)) fs))
               \<and> (raised (auto_retrain_model pd sk new_code label fs) \<noteq> None \<longrightarrow> rest = [])))
       \<and> (\<forall>e. frame_before pd fs = Inl e \<longrightarrow>
            auto_retrain_model pd sk new_code label fs
              = \<lparr>shown = [], writes = [], raised = Some e\<rparr>)"
  by (cases rule: auto_retrain_cases [of pd fs sk new_code label])
     (simp_all add: escaped_def)

theorem feedback_is_appended_first_witness:
  "writes (auto_retrain_model example_pandas example_sklearn [] ''unsafe''
             (example_files\<lparr>DATASET_FILE := None\<rparr>))
     = [Write_dataset (csv_lines [''code,label'', '',unsafe''])]
   \<and> raised (auto_retrain_model example_pandas example_sklearn [] ''unsafe''
               (example_files\<lparr>DATASET_FILE := None\<rparr>))
     = Some (LibraryError ''empty vocabulary'')
   \<and> DATASET_FILE (apply_writes
        (writes (auto_retrain_model example_pandas example_sklearn [] ''unsafe''
                   (example_files\<lparr>DATASET_FILE := None\<rparr>)))
        (example_files\<lparr>DATASET_FILE := None\<rparr>))
     = Some (csv_lines [''code,label'', '',unsafe''])"
proof -
  let ?fs = "example_files\<lparr>DATASET_FILE := None\<rparr>"
  have before: "frame_before example_pandas ?fs = Inr []"
    by (simp add: frame_before_def)
  have csv: "to_csv example_pandas [(Str [], Str ''unsafe'')] = csv_lines [''code,label'', '',unsafe'']"
    by (simp add: example_pandas_def example_to_csv_def)
  have bad: "raised (auto_retrain_model example_pandas example_sklearn [] ''unsafe'' ?fs)
               = Some (LibraryError ''empty vocabulary'')"
    by (simp add: auto_retrain_model_def before example_sklearn_def example_vectors_def escaped_def)
  from feedback_is_appended_first [where pd = example_pandas and sk = example_sklearn
      and new_code = "[]" and label = "''unsafe''" and fs = ?fs] before bad
  show ?thesis
    unfolding csv [symmetric] by auto
qed

text \<open>
  C9. \<^verbatim>\<open>auto_retrain_model\<close> never writes the metrics file: whatever it held before
  the call, it holds after every write of the call and at its end.
\<close>

theorem retrain_keeps_metrics:
  fixes sk :: "('clf, 'vz, 'vec, 'r) sklearn" and fs :: "('clf, 'vz, 'r) files"
  shows "list_all (\<lambda>s. METRICS_FILE s = METRICS_FILE fs)
           (states_during (writes (auto_retrain_model pd sk new_code label fs)) fs)
       \<and> METRICS_FILE (apply_writes (writes (auto_retrain_model pd sk new_code label fs)) fs)
           = METRICS_FILE fs"
  by (cases rule: auto_retrain_cases [of pd fs sk new_code label])
     (simp_all add: escaped_def)

theorem retrain_keeps_metrics_witness:
  "METRICS_FILE (apply_writes
      (writes (auto_retrain_model example_pandas example_sklearn ''eval(z)'' ''unsafe''
                 example_files))
      example_files) = Some \<lparr>precision = 1, recall = 1, f1_score = 1\<rparr>"
  using retrain_keeps_metrics [where pd = example_pandas and sk = example_sklearn
      and new_code = "''eval(z)''" and label = "''unsafe''" and fs = example_files]
  by (simp add: example_files_def)

section \<open>The two halves of the model artifact\<close>

lemma auto_retrain_example:
  "auto_retrain_model example_pandas example_sklearn ''eval(z)'' ''unsafe'' example_files
     = \<lparr>shown = [],
        writes = [Write_dataset (csv_lines [''code,label'', ''eval(x),unsafe'', ''print(1),safe'',
                                            ''eval(z),unsafe'']),
                  Write_model [((3, ''eval(x)''), Str ''unsafe''), ((3, ''print(1)''), Str ''safe''),
                               ((3, ''eval(z)''), Str ''unsafe'')],
                  Write_vectorizer [''eval(x)'', ''print(1)'', ''eval(z)'']],
        raised = None\<rparr>"
  by (simp add: auto_retrain_model_def frame_before_def example_pandas_def example_read_csv_def
        example_to_csv_def example_sklearn_def example_vectors_def example_files_def
        csv_lines_def Let_def)

text \<open>
  C3, as the specification states it, fails: during a retraining on feedback with an
  earlier artifact on disk, the pair of files is not replaced atomically. After the
  second write of the call, \<^verbatim>\<open>load_ml_model\<close> loads the new classifier together with
  the vectorizer of the earlier run.
\<close>

theorem artifact_halves_written_apart:
  "\<not> artifact_atomic
        (writes (auto_retrain_model example_pandas example_sklearn ''eval(z)'' ''unsafe''
                   example_files))
        example_files
   \<and> map (\<lambda>s. snd (load_ml_model s))
        (states_during
           (writes (auto_retrain_model example_pandas example_sklearn ''eval(z)'' ''unsafe''
                      example_files))
           example_files)
     = [Inr (Some ([((2, ''eval(x)''), Str ''unsafe''), ((2, ''print(1)''), Str ''safe'')],
                   [''eval(x)'', ''print(1)''])),
        Inr (Some ([((2, ''eval(x)''), Str ''unsafe''), ((2, ''print(1)''), Str ''safe'')],
                   [''eval(x)'', ''print(1)''])),
        Inr (Some ([((3, ''eval(x)''), Str ''unsafe''), ((3, ''print(1)''), Str ''safe''),
                    ((3, ''eval(z)''), Str ''unsafe'')],
                   [''eval(x)'', ''print(1)''])),
        Inr (Some ([((3, ''eval(x)''), Str ''unsafe''), ((3, ''print(1)''), Str ''safe''),
                    ((3, ''eval(z)''), Str ''unsafe'')],
                   [''eval(x)'', ''print(1)'', ''eval(z)'']))]"
  unfolding auto_retrain_example
  by (simp add: artifact_atomic_def artifact_def load_ml_model_def example_files_def)

lemma fit_and_save_trained:
  assumes "shown (fit_and_save sk data) = [St_success Model_trained]"
  obtains train test model vectorizer X scores where
    "train_test_split sk data = Inr (train, test)"
    "fit_transform sk (map fst train) = Inr (vectorizer, X)"
    "forest_fit sk X (map snd train) = Inr model"
    "writes (fit_and_save sk data)
       = [Write_model model, Write_vectorizer vectorizer, Write_metrics scores]"
  using assms
  by (auto simp: fit_and_save_def escaped_def split: sum.splits prod.splits)

lemma train_ml_model_trained:
  assumes "shown (train_ml_model pd sk fs) = [St_success Model_trained]"
  obtains csv data train test model vectorizer X scores where
    "DATASET_FILE fs = Some csv"
    "read_csv pd csv = Inr data"
    "train_test_split sk (min_support_filter data) = Inr (train, test)"
    "fit_transform sk (map fst train) = Inr (vectorizer, X)"
    "forest_fit sk X (map snd train) = Inr model"
    "writes (train_ml_model pd sk fs)
       = [Write_model model, Write_vectorizer vectorizer, Write_metrics scores]"
proof -
  from assms obtain csv data where
    dataset: "DATASET_FILE fs = Some csv" "read_csv pd csv = Inr data"
    and run: "train_ml_model pd sk fs = fit_and_save sk (min_support_filter data)"
    by (auto simp: train_ml_model_def escaped_def Let_def
           split: option.splits sum.splits if_splits)
  from assms run have "shown (fit_and_save sk (min_support_filter data)) = [St_success Model_trained]"
    by simp
  then obtain train test model vectorizer X scores where
    "train_test_split sk (min_support_filter data) = Inr (train, test)"
    "fit_transform sk (map fst train) = Inr (vectorizer, X)"
    "forest_fit sk X (map snd train) = Inr model"
    "writes (fit_and_save sk (min_support_filter data))
       = [Write_model model, Write_vectorizer vectorizer, Write_metrics scores]"
    by (rule fit_and_save_trained)
  with dataset run show thesis
    by (intro that [of csv data train test vectorizer X model scores]) simp_all
qed

text \<open>
  C3, amended. Both training paths write the classifier and the vectorizer one after
  the other, the classifier first. When a call succeeds, the two it has written come from
  the same run (the classifier was fitted on the vectors that the fitting of that
  vectorizer gave) and are the pair on disk at the end; between the two writes the disk
  holds the new classifier beside the vectorizer file of before the call.
\<close>

theorem artifact_halves_written_in_turn:
  fixes sk :: "('clf, 'vz, 'vec, 'r) sklearn" and fs :: "('clf, 'vz, 'r) files"
  shows "(raised (auto_retrain_model pd sk new_code label fs) = None \<longrightarrow>
      (\<exists>df0 model vectorizer X.
          frame_before pd fs = Inr df0
        \<and> fit_transform sk (map fst (df0 @ [(Str new_code, Str label)])) = Inr (vectorizer, X)
        \<and> forest_fit sk X (map snd (df0 @ [(Str new_code, Str label)])) = Inr model
        \<and> map artifact (states_during (writes (auto_retrain_model pd sk new_code label fs)) fs)
            = [artifact fs, artifact fs, (Some (Pickled model), VECTOR_FILE fs),
               (Some (Pickled model), Some (Pickled vectorizer))]))
   \<and> (shown (train_ml_model pd sk fs) = [St_success Model_trained] \<longrightarrow>
      (\<exists>csv data train test model vectorizer X.
          DATASET_FILE fs = Some csv
        \<and> read_csv pd csv = Inr data
        \<and> train_test_split sk (min_support_filter data) = Inr (train, test)
        \<and> fit_transform sk (map fst train) = Inr (vectorizer, X)
        \<and> forest_fit sk X (map snd train) = Inr model
        \<and> map artifact (states_during (writes (train_ml_model pd sk fs)) fs)
            = [artifact fs, (Some (Pickled model), VECTOR_FILE fs),
               (Some (Pickled model), Some (Pickled vectorizer)),
               (Some (Pickled model), Some (Pickled vectorizer))]))"
proof (intro conjI impI)
  assume ok: "raised (auto_retrain_model pd sk new_code label fs) = None"
  show "\<exists>df0 model vectorizer X.
          frame_before pd fs = Inr df0
        \<and> fit_transform sk (map fst (df0 @ [(Str new_code, Str label)])) = Inr (vectorizer, X)
        \<and> forest_fit sk X (map snd (df0 @ [(Str new_code, Str label)])) = Inr model
        \<and> map artifact (states_during (writes (auto_retrain_model pd sk new_code label fs)) fs)
            = [artifact fs, artifact fs, (Some (Pickled model), VECTOR_FILE fs),
               (Some (Pickled model), Some (Pickled vectorizer))]"
  proof (cases rule: auto_retrain_cases [of pd fs sk new_code label])
    case (unread e)
    with ok show ?thesis by (simp add: escaped_def)
  next
    case (failed df0 e)
    with ok show ?thesis by (simp add: escaped_def)
  next
    case (retrained df0 model vectorizer X)
    then show ?thesis
      by (simp add: artifact_def)
  qed
next
  assume "shown (train_ml_model pd sk fs) = [St_success Model_trained]"
  then obtain csv data train test model vectorizer X scores where
    "DATASET_FILE fs = Some csv"
    "read_csv pd csv = Inr data"
    "train_test_split sk (min_support_filter data) = Inr (train, test)"
    "fit_transform sk (map fst train) = Inr (vectorizer, X)"
    "forest_fit sk X (map snd train) = Inr model"
    "writes (train_ml_model pd sk fs)
       = [Write_model model, Write_vectorizer vectorizer, Write_metrics scores]"
    by (rule train_ml_model_trained)
  then show "\<exists>csv data train test model vectorizer X.
          DATASET_FILE fs = Some csv
        \<and> read_csv pd csv = Inr data
        \<and> train_test_split sk (min_support_filter data) = Inr (train, test)
        \<and> fit_transform sk (map fst train) = Inr (vectorizer, X)
        \<and> forest_fit sk X (map snd train) = Inr model
        \<and> map artifact (states_during (writes (train_ml_model pd sk fs)) fs)
            = [artifact fs, (Some (Pickled model), VECTOR_FILE fs),
               (Some (Pickled model), Some (Pickled vectorizer)),
               (Some (Pickled model), Some (Pickled vectorizer))]"
    by (simp add: artifact_def)
qed

theorem artifact_halves_written_in_turn_witness:
  "map artifact
     (states_during
        (writes (auto_retrain_model example_pandas example_sklearn ''eval(z)'' ''unsafe''
                   example_files))
        example_files)
   = [artifact example_files, artifact example_files,
      (Some (Pickled [((3, ''eval(x)''), Str ''unsafe''), ((3, ''print(1)''), Str ''safe''),
                      ((3, ''eval(z)''), Str ''unsafe'')]),
       VECTOR_FILE example_files),
      (Some (Pickled [((3, ''eval(x)''), Str ''unsafe''), ((3, ''print(1)''), Str ''safe''),
                      ((3, ''eval(z)''), Str ''unsafe'')]),
       Some (Pickled [''eval(x)'', ''print(1)'', ''eval(z)'']))]"
proof -
  have ok: "raised (auto_retrain_model example_pandas example_sklearn ''eval(z)'' ''unsafe''
                      example_files) = None"
    by (simp add: auto_retrain_example)
  have before: "frame_before example_pandas example_files
                  = Inr [(Str ''eval(x)'', Str ''unsafe''), (Str ''print(1)'', Str ''safe'')]"
    by (simp add: frame_before_def example_files_def example_pandas_def example_read_csv_def
          csv_lines_def)
  have fit: "fit_transform example_sklearn [Str ''eval(x)'', Str ''print(1)'', Str ''eval(z)'']
             = Inr ([''eval(x)'', ''print(1)'', ''eval(z)''],
                    [(3, ''eval(x)''), (3, ''print(1)''), (3, ''eval(z)'')])"
    by (simp add: example_sklearn_def example_vectors_def)
  have forest: "forest_fit example_sklearn X [Str ''unsafe'', Str ''safe'', Str ''unsafe'']
             = Inr (zip X [Str ''unsafe'', Str ''safe'', Str ''unsafe''])"
    for X :: "(nat \<times> string) list"
    by (simp add: example_sklearn_def)
  from artifact_halves_written_in_turn [where pd = example_pandas and sk = example_sklearn
      and new_code = "''eval(z)''" and label = "''unsafe''" and fs = example_files] ok
  show ?thesis
    by (auto simp: before fit forest)
qed

section \<open>The signature lookup\<close>











section \<open>Detection runs the three analyses\<close>

lemma report_lines_append: "report_lines (xs @ ys) = report_lines xs @ report_lines ys"
  by (induction xs rule: report_lines.induct) auto

lemma report_lines_load: "report_lines (fst (load_ml_model fs)) = []"
  by (auto simp: load_ml_model_def split: option.splits pickle.splits)

lemma report_lines_ml: "report_lines (fst (analyze_code_with_ml sk fs code)) = []"
  using report_lines_load [of fs]
  by (cases "load_ml_model fs")
     (auto simp: analyze_code_with_ml_def split: option.splits sum.splits list.splits prod.splits)

lemma report_lines_db: "report_lines (fst (compare_with_fstec digest fs code)) = []"
  by (auto simp: compare_with_fstec_def load_fstec_db_def
         split: option.splits json_file.splits)

lemma detect_ml_raises:
  assumes "snd (analyze_code_with_ml sk fs code) = Inl e"
  shows "report_lines (shown (detect sk digest parse fs code)) = []
       \<and> raised (detect sk digest parse fs code) = Some e
       \<and> writes (detect sk digest parse fs code) = []"
  using assms report_lines_ml [of sk fs code]
  by (cases "analyze_code_with_ml sk fs code") (simp add: detect_def)

lemma detect_ml_returns:
  assumes "snd (analyze_code_with_ml sk fs code) = Inr ml"
  shows "report_lines (shown (detect sk digest parse fs code))
           = [Ml_line ml, Ast_line (analyze_code_with_ast parse code)]
             @ (case snd (compare_with_fstec digest fs code) of
                  Inl e \<Rightarrow> []
                | Inr v \<Rightarrow> [Fstec_line v])
       \<and> raised (detect sk digest parse fs code)
           = (case snd (compare_with_fstec digest fs code) of Inl e \<Rightarrow> Some e | Inr v \<Rightarrow> None)
       \<and> writes (detect sk digest parse fs code) = []"
  using assms report_lines_ml [of sk fs code] report_lines_db [of digest fs code]
  by (cases "analyze_code_with_ml sk fs code"; cases "compare_with_fstec digest fs code")
     (auto simp: detect_def Let_def report_lines_append split: sum.splits)

lemma detect_writes: "writes (detect sk digest parse fs code) = []"
  using detect_ml_raises [of sk fs code _ digest parse] detect_ml_returns [of sk fs code _ digest parse]
  by (cases "snd (analyze_code_with_ml sk fs code)") auto




text \<open>
  C10, as the specification states it, fails: a store file of bytes that are not UTF-8
  text is not JSON, \<^verbatim>\<open>json.load\<close> raises \<^verbatim>\<open>UnicodeDecodeError\<close> on it, and the
  exception escapes the lookup.
\<close>

theorem undecodable_store_raises:
  "compare_with_fstec example_hash
     (example_files\<lparr>FSTEC_DB_FILE := Some (Load_raises UnicodeDecodeError)\<rparr>) ''os.system(x)''
   = ([], Inl UnicodeDecodeError)"
  by (simp add: compare_with_fstec_def load_fstec_db_def)

text \<open>
  C10, amended. When the signature file exists and \<^verbatim>\<open>json.load\<close> rejects it with
  \<^verbatim>\<open>JSONDecodeError\<close>, the lookup shows the error of the file, reads the store as empty
  and answers that there is no match; it raises nothing, and detection writes no file,
  so the file stays as it is. When \<^verbatim>\<open>json.load\<close> raises any other exception on the
  file, that exception escapes the lookup.
\<close>

theorem corrupt_store_is_empty:
  "(FSTEC_DB_FILE fs = Some (Load_raises JSONDecodeError) \<longrightarrow>
      compare_with_fstec digest fs code = ([St_error Fstec_bad_json], Inr No_match)
    \<and> writes (detect sk digest parse fs code) = []
    \<and> FSTEC_DB_FILE (apply_writes (writes (detect sk digest parse fs code)) fs)
        = Some (Load_raises JSONDecodeError))
   \<and> (\<forall>e. FSTEC_DB_FILE fs = Some (Load_raises e) \<and> e \<noteq> JSONDecodeError \<longrightarrow>
        compare_with_fstec digest fs code = ([], Inl e))"
  by (simp add: compare_with_fstec_def load_fstec_db_def detect_writes)

theorem corrupt_store_is_empty_witness:
  "compare_with_fstec example_hash
     (example_files\<lparr>FSTEC_DB_FILE := Some (Load_raises JSONDecodeError)\<rparr>) ''os.system(x)''
     = ([St_error Fstec_bad_json], Inr No_match)"
  using corrupt_store_is_empty [of "example_files\<lparr>FSTEC_DB_FILE := Some (Load_raises JSONDecodeError)\<rparr>"
      example_hash "''os.system(x)''" example_sklearn example_parse]
  by simp

section \<open>Refreshing the signature store\<close>






lemma add_hashes_patterns:
  assumes "list_all (\<lambda>r. \<exists>p. has_pattern p r) recs"
  shows "\<exists>recs'. add_hashes digest recs = Inr recs' \<and> list_all2 (hashed digest) recs recs'"
  using assms
proof (induction recs)
  case Nil
  then show ?case by simp
next
  case (Cons r recs)
  then obtain recs' where rest: "add_hashes digest recs = Inr recs'"
      "list_all2 (hashed digest) recs recs'"
    by auto
  from Cons.prems obtain kvs p where r: "r = JObj kvs" "map_of kvs ''pattern'' = Some (JStr p)"
    by (cases r) auto
  then have "add_hash digest r = Inr (JObj (AList.update ''hash'' (JStr (digest p)) kvs))"
    by simp
  moreover have "hashed digest r (JObj (AList.update ''hash'' (JStr (digest p)) kvs))"
    using r by (simp add: update_conv')
  ultimately show ?case
    using rest by simp
qed

lemma hashed_fields:
  assumes "hashed digest r r'"
  shows "\<exists>p. has_pattern p r \<and> has_pattern p r' \<and> has_hash (digest p) r'"
  using assms by (cases "(digest, r, r')" rule: hashed.cases) auto

text \<open>
  C8. When the payload is a list of objects that each have a string \<^verbatim>\<open>pattern\<close>, the
  refresh succeeds and stores one record for each incoming record, in order: the incoming
  record with its \<^verbatim>\<open>hash\<close> field set to the digest of its pattern. Every stored record
  carries the digest of its own pattern as its hash.
\<close>

theorem refresh_hashes_every_pattern:
  fixes fs :: "('clf, 'vz, 'r) files"
  assumes "list_all (\<lambda>r. \<exists>p. has_pattern p r) recs"
  shows "\<exists>recs'. (update_fstec_db digest True (Inr (Response 200 (Inr (JArr recs))))
                     :: ('clf, 'vz, 'r) effects)
                   = \<lparr>shown = [St_success Fstec_updated], writes = [Write_fstec (JArr recs')],
                      raised = None\<rparr>
           \<and> FSTEC_DB_FILE (apply_writes
                (writes (update_fstec_db digest True (Inr (Response 200 (Inr (JArr recs)))))) fs)
               = Some (Json (JArr recs'))
           \<and> list_all2 (hashed digest) recs recs'
           \<and> list_all (\<lambda>r'. \<exists>p. has_pattern p r' \<and> has_hash (digest p) r') recs'"
proof -
  from add_hashes_patterns [OF assms] obtain recs' where
    recs': "add_hashes digest recs = Inr recs'" "list_all2 (hashed digest) recs recs'"
    by blast
  have "list_all (\<lambda>r'. \<exists>p. has_pattern p r' \<and> has_hash (digest p) r') recs'"
    unfolding list_all_iff
  proof
    fix r' assume "r' \<in> set recs'"
    then obtain r where "hashed digest r r'"
      using recs'(2) by (auto simp: list_all2_conv_all_nth in_set_conv_nth)
    then show "\<exists>p. has_pattern p r' \<and> has_hash (digest p) r'"
      using hashed_fields by blast
  qed
  with recs' show ?thesis
    by (simp add: update_fstec_db_def)
qed

theorem refresh_hashes_every_pattern_witness:
  "(update_fstec_db example_hash True
      (Inr (Response 200 (Inr (JArr [JObj [(''pattern'', JStr ''os.system(x)''),
                                           (''hash'', JStr ''stale'')]])))) :: example_effects)
   = \<lparr>shown = [St_success Fstec_updated],
      writes = [Write_fstec (JArr [JObj [(''pattern'', JStr ''os.system(x)''),
                                         (''hash'', JStr ''digest of os.system(x)'')]])],
      raised = None\<rparr>"
proof -
  have "list_all (\<lambda>r. \<exists>p. has_pattern p r)
          [JObj [(''pattern'', JStr ''os.system(x)''), (''hash'', JStr ''stale'')]]"
    by simp
  from refresh_hashes_every_pattern [OF this, where digest = example_hash and fs = example_files]
  show ?thesis
    by (simp add: update_fstec_db_def example_hash_def)
qed

end
